theory Spec2Isabelle
  imports Main "HOL-Library.AList"
begin

section \<open>Values shared by all packages\<close>

text \<open>
  Go's \<open>error\<close> values.  \<open>ErrNoRows\<close> is \<open>sql.ErrNoRows\<close>, \<open>Err s\<close> is an error
  created by a library (driver, HTTP client, Matrix client) with message \<open>s\<close>, and
  \<open>Wrap s e\<close> is \<open>fmt.Errorf("s: %w", e)\<close>.
\<close>

datatype error = ErrNoRows | Err string | Wrap string error

type_synonym RoomID = string
type_synonym EventID = string
type_synonym UserID = string

text \<open>
  \<open>time.Time\<close>: an instant (seconds and nanoseconds since the Unix epoch) together with
  the location it is displayed in.
\<close>

datatype Location = UTC | Local | Zone string

record Time =
  sec :: int
  nsec :: int
  loc :: Location

definition Time_zero :: Time where
  \<comment> \<open>\<open>time.Time{}\<close>: January 1, year 1, 00:00:00 UTC\<close>
  "Time_zero = \<lparr>sec = - 62135596800, nsec = 0, loc = UTC\<rparr>"

definition time_Unix :: "int \<Rightarrow> int \<Rightarrow> Time" where
  \<comment> \<open>\<open>time.Unix(sec, nsec)\<close> for \<open>0 \<le> nsec < 1e9\<close>; the result is in the local zone\<close>
  "time_Unix s n = \<lparr>sec = s, nsec = n, loc = Local\<rparr>"

definition Unix :: "Time \<Rightarrow> int" where
  "Unix t = sec t"

definition In :: "Time \<Rightarrow> Location \<Rightarrow> Time" where
  \<comment> \<open>\<open>t.In(loc)\<close>: the same instant, displayed in \<open>loc\<close>\<close>
  "In t l = t\<lparr>loc := l\<rparr>"

definition wrap64 :: "int \<Rightarrow> int" where
  \<comment> \<open>two's complement wrap-around of an \<open>int64\<close>\<close>
  "wrap64 k = (k + 2 ^ 63) mod 2 ^ 64 - 2 ^ 63"

definition UnixNano :: "Time \<Rightarrow> int" where
  "UnixNano t = wrap64 (sec t * 1000000000 + nsec t)"

definition quo :: "int \<Rightarrow> int \<Rightarrow> int" where
  \<comment> \<open>Go's integer division: the quotient is truncated towards zero\<close>
  "quo a b = sgn a * sgn b * (\<bar>a\<bar> div \<bar>b\<bar>)"

section \<open>Package database\<close>

text \<open>
  The three tables of \<open>createTables\<close>.  Every column the code writes is written with a
  non-NULL Go value; \<open>last_message_timestamp\<close> is never written and stays NULL.
\<close>

record portal_row =
  p_hostex_id :: string
  p_matrix_room_id :: RoomID
  p_name :: string
  p_topic :: string
  p_avatar_url :: string
  p_encrypted :: bool
  p_last_message_timestamp :: "int option"

record message_row =
  m_hostex_id :: string
  m_matrix_event_id :: EventID
  m_timestamp :: int
  m_sender :: string
  m_content :: string

record user_row =
  u_mxid :: UserID
  u_hostex_id :: string

record Database =
  portal_tbl :: "portal_row list"
  message_tbl :: "message_row list"
  user_tbl :: "user_row list"

definition NewDatabase :: Database where
  \<comment> \<open>\<open>New\<close> on a fresh file: \<open>createTables\<close> leaves three empty tables\<close>
  "NewDatabase = \<lparr>portal_tbl = [], message_tbl = [], user_tbl = []\<rparr>"

text \<open>
  \<open>QueryRow(...).Scan(&dest)\<close> for a query with one result column.  \<open>io\<close> is the failure
  of the driver round trip, if any; \<open>rows\<close> are the values of the column in the result
  rows (\<open>None\<close> is SQL NULL); \<open>zero\<close> is the value \<open>dest\<close> holds before the call.
  No row gives \<open>sql.ErrNoRows\<close>; a NULL cannot be converted into a Go \<open>int64\<close> or
  \<open>string\<close> destination, and \<open>Scan\<close> reports that as an error.
\<close>

definition QueryRow_Scan :: "error option \<Rightarrow> 'a option list \<Rightarrow> 'a \<Rightarrow> 'a \<times> error option" where
  "QueryRow_Scan io rows zero =
     (case io of
        Some e \<Rightarrow> (zero, Some e)
      | None \<Rightarrow>
          (case rows of
             [] \<Rightarrow> (zero, Some ErrNoRows)
           | None # _ \<Rightarrow> (zero, Some (Err ''sql: Scan error on column index 0: converting NULL is unsupported''))
           | Some v # _ \<Rightarrow> (v, None)))"

definition GetPortal :: "error option \<Rightarrow> Database \<Rightarrow> string \<Rightarrow> RoomID \<times> error option" where
  "GetPortal io db hostexID =
     (let (roomID, err) =
            QueryRow_Scan io
              (map (\<lambda>r. Some (p_matrix_room_id r))
                 (filter (\<lambda>r. p_hostex_id r = hostexID) (portal_tbl db))) ''''
      in if err = Some ErrNoRows then ('''', None) else (roomID, err))"

definition StorePortal ::
  "error option \<Rightarrow> Database \<Rightarrow> string \<Rightarrow> RoomID \<Rightarrow> string \<Rightarrow> string \<Rightarrow> string \<Rightarrow> bool
     \<Rightarrow> error option \<times> Database" where
  \<comment> \<open>\<open>INSERT ... ON CONFLICT (hostex_id) DO UPDATE\<close>; \<open>matrix_room_id\<close> is \<open>UNIQUE\<close>\<close>
  "StorePortal io db hostexID roomID name topic avatarURL encrypted =
     (case io of
        Some e \<Rightarrow> (Some e, db)
      | None \<Rightarrow>
          if \<exists>r \<in> set (portal_tbl db). p_hostex_id r \<noteq> hostexID \<and> p_matrix_room_id r = roomID
          then (Some (Err ''UNIQUE constraint failed: portal.matrix_room_id''), db)
          else if \<exists>r \<in> set (portal_tbl db). p_hostex_id r = hostexID
          then (None, db\<lparr>portal_tbl :=
                  map (\<lambda>r. if p_hostex_id r = hostexID
                            then r\<lparr>p_matrix_room_id := roomID, p_name := name, p_topic := topic,
                                   p_avatar_url := avatarURL, p_encrypted := encrypted\<rparr>
                            else r) (portal_tbl db)\<rparr>)
          else (None, db\<lparr>portal_tbl := portal_tbl db @
                  [\<lparr>p_hostex_id = hostexID, p_matrix_room_id = roomID, p_name = name,
                    p_topic = topic, p_avatar_url = avatarURL, p_encrypted = encrypted,
                    p_last_message_timestamp = None\<rparr>]\<rparr>))"

definition StoreMessage ::
  "error option \<Rightarrow> Database \<Rightarrow> string \<Rightarrow> EventID \<Rightarrow> Time \<Rightarrow> string \<Rightarrow> string
     \<Rightarrow> error option \<times> Database" where
  \<comment> \<open>a plain \<open>INSERT\<close>; primary key \<open>(hostex_id, matrix_event_id)\<close>, \<open>matrix_event_id\<close> \<open>UNIQUE\<close>\<close>
  "StoreMessage io db hostexID eventID timestamp sender content =
     (case io of
        Some e \<Rightarrow> (Some e, db)
      | None \<Rightarrow>
          if \<exists>r \<in> set (message_tbl db). m_hostex_id r = hostexID \<and> m_matrix_event_id r = eventID
          then (Some (Err ''UNIQUE constraint failed: message.hostex_id, message.matrix_event_id''), db)
          else if \<exists>r \<in> set (message_tbl db). m_matrix_event_id r = eventID
          then (Some (Err ''UNIQUE constraint failed: message.matrix_event_id''), db)
          else (None, db\<lparr>message_tbl := message_tbl db @
                  [\<lparr>m_hostex_id = hostexID, m_matrix_event_id = eventID,
                    m_timestamp = Unix timestamp, m_sender = sender, m_content = content\<rparr>]\<rparr>))"

definition max_list :: "int list \<Rightarrow> int option" where
  \<comment> \<open>SQL \<open>MAX\<close>: NULL over no rows\<close>
  "max_list xs = (if xs = [] then None else Some (fold max (tl xs) (hd xs)))"

definition GetLastMessageTimestamp :: "error option \<Rightarrow> Database \<Rightarrow> string \<Rightarrow> Time \<times> error option" where
  \<comment> \<open>\<open>SELECT MAX(timestamp) ...\<close>: an aggregate without \<open>GROUP BY\<close> always yields one row\<close>
  "GetLastMessageTimestamp io db hostexID =
     (let (timestamp, err) =
            QueryRow_Scan io
              [max_list (map m_timestamp (filter (\<lambda>r. m_hostex_id r = hostexID) (message_tbl db)))] 0
      in if err = Some ErrNoRows then (Time_zero, None) else (time_Unix timestamp 0, err))"

definition StoreUser :: "error option \<Rightarrow> Database \<Rightarrow> UserID \<Rightarrow> string \<Rightarrow> error option \<times> Database" where
  \<comment> \<open>\<open>INSERT ... ON CONFLICT (mxid) DO UPDATE\<close>; \<open>hostex_id\<close> is \<open>UNIQUE\<close>\<close>
  "StoreUser io db mxid hostexID =
     (case io of
        Some e \<Rightarrow> (Some e, db)
      | None \<Rightarrow>
          if \<exists>r \<in> set (user_tbl db). u_mxid r \<noteq> mxid \<and> u_hostex_id r = hostexID
          then (Some (Err ''UNIQUE constraint failed: user.hostex_id''), db)
          else if \<exists>r \<in> set (user_tbl db). u_mxid r = mxid
          then (None, db\<lparr>user_tbl :=
                  map (\<lambda>r. if u_mxid r = mxid then r\<lparr>u_hostex_id := hostexID\<rparr> else r) (user_tbl db)\<rparr>)
          else (None, db\<lparr>user_tbl := user_tbl db @ [\<lparr>u_mxid = mxid, u_hostex_id = hostexID\<rparr>]\<rparr>))"

definition GetUser :: "error option \<Rightarrow> Database \<Rightarrow> UserID \<Rightarrow> string \<times> error option" where
  "GetUser io db mxid =
     (let (hostexID, err) =
            QueryRow_Scan io
              (map (\<lambda>r. Some (u_hostex_id r)) (filter (\<lambda>r. u_mxid r = mxid) (user_tbl db))) ''''
      in if err = Some ErrNoRows then ('''', None) else (hostexID, err))"

text \<open>Number of rows of a table that carry a given primary key.\<close>

definition portal_rows :: "Database \<Rightarrow> string \<Rightarrow> nat" where
  "portal_rows db k = length (filter (\<lambda>r. p_hostex_id r = k) (portal_tbl db))"

definition user_rows :: "Database \<Rightarrow> UserID \<Rightarrow> nat" where
  "user_rows db k = length (filter (\<lambda>r. u_mxid r = k) (user_tbl db))"

definition message_rows :: "Database \<Rightarrow> string \<Rightarrow> EventID \<Rightarrow> nat" where
  "message_rows db k e =
     length (filter (\<lambda>r. m_hostex_id r = k \<and> m_matrix_event_id r = e) (message_tbl db))"

section \<open>Packages hostexapi and config, and the Matrix event types used\<close>

record Conversation =
  conv_ID :: string
  ChannelType :: string
  LastMessageAt :: Time
  Guest_Name :: string
  Guest_Phone :: string
  Guest_Email :: string
  PropertyTitle :: string
  CheckInDate :: string
  CheckOutDate :: string

definition Conversation_zero :: Conversation where
  "Conversation_zero =
     \<lparr>conv_ID = [], ChannelType = [], LastMessageAt = Time_zero, Guest_Name = [],
      Guest_Phone = [], Guest_Email = [], PropertyTitle = [], CheckInDate = [],
      CheckOutDate = []\<rparr>"

record Message =
  msg_ID :: string
  Content :: string
  Timestamp :: Time
  Sender :: string

record Config =
  Homeserver_Domain :: string
  Admin_UserID :: UserID
  Timezone :: string
  PersonalSpaceEnable :: bool

text \<open>
  \<open>event.Type\<close>, \<open>event.MessageType\<close>, and the parsed content of an event:
  \<open>evt.Content.Parsed.(*event.MessageEventContent)\<close> succeeds on \<open>ParsedMessage\<close> only.
\<close>

datatype EventType = EventMessage | StateSpaceChild | OtherEventType string

datatype MessageType = MsgText | MsgNotice | MsgEmote | MsgImage | MsgOther string

record MessageEventContent =
  MsgType :: MessageType
  Body :: string

datatype Parsed = ParsedMessage MessageEventContent | ParsedOther

record Event =
  evt_Type :: EventType
  evt_RoomID :: RoomID
  evt_ID :: EventID
  evt_Sender :: UserID
  evt_Parsed :: Parsed

section \<open>Package bridge: state and collaborators\<close>

datatype Level = InfoLevel | WarnLevel | ErrorLevel

text \<open>
  One entry per call the bridge makes on a collaborator (Matrix client, Hostex client,
  database, logger), in the order of the calls, with the collaborator's answer.
\<close>

datatype call =
    MatrixCreateRoom string string string "error + RoomID"
  | MatrixSendMessageEvent RoomID EventType MessageEventContent "int option" "error + EventID"
  | MatrixSendStateEvent RoomID EventType string "string list" "error + EventID"
  | HostexGetConversations "error + Conversation list"
  | HostexGetMessages string Time int "error + Message list"
  | HostexSendMessage string string "error option"
  | DBGetPortal string "error option"
  | DBStorePortal string RoomID "error option"
  | DBStoreMessage string EventID int "error option"
  | DBGetLastMessageTimestamp string "error option"
  | Log Level string

text \<open>
  The collaborators are not part of the repository; their answers are parameters.  An
  answer may depend on the moment of the call, given by the number of calls made before.
  \<open>LoadLocation\<close>, \<open>FormatRFC3339\<close> and \<open>unicode_ToLower\<close> stand for the Go standard
  library's time zone database, its time formatting and its Unicode case tables.
\<close>

record Env =
  CreateRoom_resp :: "nat \<Rightarrow> error + RoomID"
  SendMessageEvent_resp :: "nat \<Rightarrow> error + EventID"
  SendStateEvent_resp :: "nat \<Rightarrow> error + EventID"
  GetConversations_resp :: "nat \<Rightarrow> error + Conversation list"
  GetMessages_resp :: "nat \<Rightarrow> error + Message list"
  HostexSend_resp :: "nat \<Rightarrow> error option"
  db_io :: "nat \<Rightarrow> error option"
  Now :: "nat \<Rightarrow> Time"
  LoadLocation :: "string \<Rightarrow> error + Location"
  FormatRFC3339 :: "Time \<Rightarrow> string"
  unicode_ToLower :: "string \<Rightarrow> string"

record Portal =
  ID :: string
  RoomID :: RoomID
  Info :: Conversation

record User =
  MXID :: UserID

text \<open>A goroutine started with \<open>go\<close> that has not run yet.\<close>

datatype Task = SyncTask User RoomID

text \<open>
  \<open>portalsByID\<close> holds the portals themselves (Go holds pointers; every function below
  that changes a portal writes it back under its key).  It is a list of pairs because
  \<open>sendStatusMessage\<close> and \<open>listConversations\<close> range over it; Go leaves the order of that
  iteration open, the model takes the order of insertion.
\<close>

record Bridge =
  Config :: Config
  DB :: Database
  HostexClient :: bool
  usersByMXID :: "UserID \<rightharpoonup> User"
  portalsByID :: "(string \<times> Portal) list"
  managementRoom :: RoomID
  spaceRoom :: RoomID
  lastPollTime :: Time
  calls :: "call list"
  pending :: "Task list"

definition NewBridge :: "Config \<Rightarrow> Database \<Rightarrow> Bridge" where
  "NewBridge cfg db =
     \<lparr>Config = cfg, DB = db, HostexClient = True, usersByMXID = Map.empty, portalsByID = [],
      managementRoom = [], spaceRoom = [], lastPollTime = Time_zero, calls = [],
      pending = []\<rparr>"

definition NewPortal :: "string \<Rightarrow> Portal" where
  "NewPortal i = \<lparr>ID = i, RoomID = [], Info = Conversation_zero\<rparr>"

definition NewUser :: "UserID \<Rightarrow> User" where
  "NewUser mxid = \<lparr>MXID = mxid\<rparr>"

definition tick :: "Bridge \<Rightarrow> nat" where
  "tick b = length (calls b)"

definition emit :: "call \<Rightarrow> Bridge \<Rightarrow> Bridge" where
  "emit c b = b\<lparr>calls := calls b @ [c]\<rparr>"

section \<open>Portal\<close>

definition UpdateInfo :: "Portal \<Rightarrow> Conversation \<Rightarrow> Portal" where
  "UpdateInfo p info = p\<lparr>Info := info\<rparr>"

definition addToPersonalSpace :: "Env \<Rightarrow> Bridge \<Rightarrow> Portal \<Rightarrow> error option \<times> Bridge" where
  "addToPersonalSpace env b p =
     (let resp = SendStateEvent_resp env (tick b);
          b1 = emit (MatrixSendStateEvent (spaceRoom b) StateSpaceChild (RoomID p)
                       [Homeserver_Domain (Config b)] resp) b
      in case resp of
           Inl e \<Rightarrow> (Some (Wrap ''failed to add room to personal space'' e), b1)
         | Inr _ \<Rightarrow> (None, b1))"

definition CreateMatrixRoom :: "Env \<Rightarrow> Bridge \<Rightarrow> Portal \<Rightarrow> error option \<times> Bridge \<times> Portal" where
  "CreateMatrixRoom env b p =
     (if RoomID p \<noteq> [] then (None, b, p)
      else
        let (existingRoomID, err) = GetPortal (db_io env (tick b)) (DB b) (ID p);
            b1 = emit (DBGetPortal (ID p) err) b
        in case err of
             Some e \<Rightarrow> (Some (Wrap ''failed to check existing portal'' e), b1, p)
           | None \<Rightarrow>
               if existingRoomID \<noteq> [] then (None, b1, p\<lparr>RoomID := existingRoomID\<rparr>)
               else
                 let name = ChannelType (Info p) @ '' - '' @ Guest_Name (Info p);
                     topic = ''Hostex conversation for '' @ PropertyTitle (Info p);
                     resp = CreateRoom_resp env (tick b1);
                     b2 = emit (MatrixCreateRoom ''private'' name topic resp) b1
                 in case resp of
                      Inl e \<Rightarrow> (Some (Wrap ''failed to create Matrix room'' e), b2, p)
                    | Inr rid \<Rightarrow>
                        let p1 = p\<lparr>RoomID := rid\<rparr>;
                            b3 = emit (Log InfoLevel ''Created Matrix room'') b2;
                            (err2, db') = StorePortal (db_io env (tick b3)) (DB b3) (ID p1)
                                            (RoomID p1) name topic [] False;
                            b4 = emit (DBStorePortal (ID p1) (RoomID p1) err2) (b3\<lparr>DB := db'\<rparr>)
                        in case err2 of
                             Some e \<Rightarrow> (Some (Wrap ''failed to store portal in database'' e), b4, p1)
                           | None \<Rightarrow>
                               if PersonalSpaceEnable (Config b4)
                               then
                                 (let (err3, b5) = addToPersonalSpace env b4 p1
                                  in case err3 of
                                       Some e \<Rightarrow>
                                         (None, emit (Log ErrorLevel ''Failed to add room to personal space'') b5, p1)
                                     | None \<Rightarrow> (None, b5, p1))
                               else (None, b4, p1))"

definition HandleMatrixMessage :: "Env \<Rightarrow> Bridge \<Rightarrow> Portal \<Rightarrow> Event \<Rightarrow> Bridge" where
  "HandleMatrixMessage env b p evt =
     (if evt_Type evt \<noteq> EventMessage then b
      else
        case evt_Parsed evt of
          ParsedOther \<Rightarrow> emit (Log WarnLevel ''Received non-message event'') b
        | ParsedMessage content \<Rightarrow>
            let err = HostexSend_resp env (tick b);
                b1 = emit (HostexSendMessage (ID p) (Body content) err) b
            in case err of
                 Some e \<Rightarrow> emit (Log ErrorLevel ''Failed to send message to Hostex'') b1
               | None \<Rightarrow>
                   let (err2, db') = StoreMessage (db_io env (tick b1)) (DB b1) (ID p) (evt_ID evt)
                                       (Now env (tick b1)) (evt_Sender evt) (Body content);
                       b2 = emit (DBStoreMessage (ID p) (evt_ID evt) (Unix (Now env (tick b1))) err2)
                              (b1\<lparr>DB := db'\<rparr>)
                   in case err2 of
                        Some e \<Rightarrow> emit (Log ErrorLevel ''Failed to store message in database'') b2
                      | None \<Rightarrow> b2)"

definition SendMessage_timestamp :: "Env \<Rightarrow> Bridge \<Rightarrow> Message \<Rightarrow> Time" where
  \<comment> \<open>the local variable \<open>timestamp\<close> of \<open>SendMessage\<close>\<close>
  "SendMessage_timestamp env b msg =
     (case LoadLocation env (Timezone (Config b)) of
        Inl e \<Rightarrow> In (Timestamp msg) UTC
      | Inr l \<Rightarrow> In (Timestamp msg) l)"

definition SendMessage :: "Env \<Rightarrow> Bridge \<Rightarrow> Portal \<Rightarrow> Message \<Rightarrow> error option \<times> Bridge" where
  "SendMessage env b p msg =
     (let content = \<lparr>MsgType = MsgText, Body = Content msg\<rparr>;
          b1 = (case LoadLocation env (Timezone (Config b)) of
                  Inl e \<Rightarrow> emit (Log ErrorLevel ''Failed to load timezone'') b
                | Inr l \<Rightarrow> b);
          timestamp = SendMessage_timestamp env b msg;
          resp = SendMessageEvent_resp env (tick b1);
          b2 = emit (MatrixSendMessageEvent (RoomID p) EventMessage content
                       (Some (quo (UnixNano timestamp) 1000000)) resp) b1
      in case resp of
           Inl e \<Rightarrow> (Some (Wrap ''failed to send Matrix message'' e), b2)
         | Inr eventID \<Rightarrow>
             let (err2, db') = StoreMessage (db_io env (tick b2)) (DB b2) (ID p) eventID timestamp
                                 (Sender msg) (Content msg);
                 b3 = emit (DBStoreMessage (ID p) eventID (Unix timestamp) err2) (b2\<lparr>DB := db'\<rparr>)
             in case err2 of
                  Some e \<Rightarrow> (None, emit (Log ErrorLevel ''Failed to store message in database'') b3)
                | None \<Rightarrow> (None, b3))"

fun sendBackfilled :: "Env \<Rightarrow> Bridge \<Rightarrow> Portal \<Rightarrow> Message list \<Rightarrow> Bridge" where
  \<comment> \<open>the \<open>for _, msg := range messages\<close> loop of \<open>BackfillMessages\<close>\<close>
  "sendBackfilled env b p [] = b"
| "sendBackfilled env b p (msg # messages) =
     (case SendMessage env b p msg of
        (Some e, b1) \<Rightarrow>
          sendBackfilled env (emit (Log ErrorLevel ''Failed to send backfilled message'') b1) p messages
      | (None, b1) \<Rightarrow> sendBackfilled env b1 p messages)"

definition BackfillMessages :: "Env \<Rightarrow> Bridge \<Rightarrow> Portal \<Rightarrow> error option \<times> Bridge" where
  "BackfillMessages env b p =
     (let (lastTimestamp, err) = GetLastMessageTimestamp (db_io env (tick b)) (DB b) (ID p);
          b1 = emit (DBGetLastMessageTimestamp (ID p) err) b
      in case err of
           Some e \<Rightarrow> (Some (Wrap ''failed to get last message timestamp'' e), b1)
         | None \<Rightarrow>
             let resp = GetMessages_resp env (tick b1);
                 b2 = emit (HostexGetMessages (ID p) lastTimestamp 10 resp) b1
             in case resp of
                  Inl e \<Rightarrow> (Some (Wrap ''failed to get messages from Hostex'' e), b2)
                | Inr messages \<Rightarrow> (None, sendBackfilled env b2 p messages))"

section \<open>The string functions of the standard library that \<open>HandleCommand\<close> uses\<close>

text \<open>
  Go strings are byte sequences, as \<open>string\<close> is.  \<open>strings.Fields\<close> splits around runs of
  white space as \<open>unicode.IsSpace\<close> defines it: six ASCII characters, and the code points
  U+0085, U+00A0, U+1680, U+2000 to U+200A, U+2028, U+2029, U+202F, U+205F and U+3000,
  listed here in their UTF-8 encoding.  None of the bytes that starts one of them can occur
  inside the encoding of another code point, so a byte-wise scan finds the same fields.
\<close>

definition asciiSpace :: "char \<Rightarrow> bool" where
  "asciiSpace c \<longleftrightarrow> c \<in> {CHR 0x09, CHR 0x0A, CHR 0x0B, CHR 0x0C, CHR 0x0D, CHR 0x20}"

definition unicodeSpaces :: "string list" where
  "unicodeSpaces =
     [[CHR 0xC2, CHR 0x85], [CHR 0xC2, CHR 0xA0], [CHR 0xE1, CHR 0x9A, CHR 0x80],
      [CHR 0xE2, CHR 0x80, CHR 0x80], [CHR 0xE2, CHR 0x80, CHR 0x81],
      [CHR 0xE2, CHR 0x80, CHR 0x82], [CHR 0xE2, CHR 0x80, CHR 0x83],
      [CHR 0xE2, CHR 0x80, CHR 0x84], [CHR 0xE2, CHR 0x80, CHR 0x85],
      [CHR 0xE2, CHR 0x80, CHR 0x86], [CHR 0xE2, CHR 0x80, CHR 0x87],
      [CHR 0xE2, CHR 0x80, CHR 0x88], [CHR 0xE2, CHR 0x80, CHR 0x89],
      [CHR 0xE2, CHR 0x80, CHR 0x8A], [CHR 0xE2, CHR 0x80, CHR 0xA8],
      [CHR 0xE2, CHR 0x80, CHR 0xA9], [CHR 0xE2, CHR 0x80, CHR 0xAF],
      [CHR 0xE2, CHR 0x81, CHR 0x9F], [CHR 0xE3, CHR 0x80, CHR 0x80]]"

definition space_width :: "string \<Rightarrow> nat" where
  \<comment> \<open>the number of bytes of the white space character the string starts with, or 0\<close>
  "space_width s =
     (case s of
        [] \<Rightarrow> 0
      | c # cs \<Rightarrow>
          if asciiSpace c then 1
          else (case find (\<lambda>w. take (length w) s = w) unicodeSpaces of
                  Some w \<Rightarrow> length w
                | None \<Rightarrow> 0))"

function fields_from :: "string \<Rightarrow> string \<Rightarrow> string list" where
  "fields_from cur [] = (if cur = [] then [] else [cur])"
| "fields_from cur (c # cs) =
     (if space_width (c # cs) = 0 then fields_from (cur @ [c]) cs
      else (if cur = [] then [] else [cur]) @ fields_from [] (drop (space_width (c # cs) - 1) cs))"
  by pat_completeness auto
termination
  by (relation "measure (\<lambda>(cur, s). length s)") auto

definition Fields :: "string \<Rightarrow> string list" where
  "Fields s = fields_from [] s"

definition ToLower :: "Env \<Rightarrow> string \<Rightarrow> string" where
  \<comment> \<open>\<open>strings.ToLower\<close>: ASCII strings are mapped byte by byte, others through the Unicode tables\<close>
  "ToLower env s =
     (if \<forall>c \<in> set s. (of_char c :: nat) < 128
      then map (\<lambda>c. if 65 \<le> (of_char c :: nat) \<and> (of_char c :: nat) \<le> 90
                     then char_of (of_char c + (32 :: nat)) else c) s
      else unicode_ToLower env s)"

fun digits :: "nat \<Rightarrow> string" where
  \<comment> \<open>\<open>%d\<close> of a non-negative number\<close>
  "digits n = (if n < 10 then [char_of (48 + n)] else digits (n div 10) @ [char_of (48 + n mod 10)])"

section \<open>User: the command dispatcher\<close>

definition sendContent :: "Env \<Rightarrow> Bridge \<Rightarrow> RoomID \<Rightarrow> MessageEventContent \<Rightarrow> string \<Rightarrow> Bridge" where
  \<comment> \<open>the ending shared by the send functions of \<open>User\<close>: send, and log a failure as \<open>failure\<close>\<close>
  "sendContent env b roomID content failure =
     (let resp = SendMessageEvent_resp env (tick b);
          b1 = emit (MatrixSendMessageEvent roomID EventMessage content None resp) b
      in case resp of
           Inl e \<Rightarrow> emit (Log ErrorLevel failure) b1
         | Inr _ \<Rightarrow> b1)"

definition sendHelpMessage :: "Env \<Rightarrow> Bridge \<Rightarrow> User \<Rightarrow> RoomID \<Rightarrow> Bridge" where
  "sendHelpMessage env b u roomID =
     sendContent env b roomID
       \<lparr>MsgType = MsgNotice,
        Body = ''Available commands:'' @ [CHR 0x0A] @
               ''!help - Show this help message'' @ [CHR 0x0A] @
               ''!status - Show bridge status'' @ [CHR 0x0A] @
               ''!list - List active conversations'' @ [CHR 0x0A] @
               ''!sync - Force sync conversations from Hostex''\<rparr>
       ''Failed to send help message''"

definition sendStatusMessage :: "Env \<Rightarrow> Bridge \<Rightarrow> User \<Rightarrow> RoomID \<Rightarrow> Bridge" where
  "sendStatusMessage env b u roomID =
     (let bridgedRooms = length (filter (\<lambda>(k, portal). RoomID portal \<noteq> []) (portalsByID b));
          lastPollTime = Time_zero
      in sendContent env b roomID
           \<lparr>MsgType = MsgNotice,
            Body = ''Bridge Status:'' @ [CHR 0x0A] @
                   ''Connected to Hostex: '' @ (if HostexClient b then ''true'' else ''false'') @ [CHR 0x0A] @
                   ''Bridged conversations: '' @ digits bridgedRooms @ [CHR 0x0A] @
                   ''Last poll time: '' @ FormatRFC3339 env lastPollTime @ [CHR 0x0A] @
                   ''Timezone: '' @ Timezone (Config b)\<rparr>
           ''Failed to send status message'')"

definition listConversations :: "Env \<Rightarrow> Bridge \<Rightarrow> User \<Rightarrow> RoomID \<Rightarrow> Bridge" where
  "listConversations env b u roomID =
     (let conversationList =
            ''Active conversations:'' @ [CHR 0x0A, CHR 0x0A] @
            concat (map (\<lambda>(k, portal).
                      if RoomID portal \<noteq> []
                      then ''- '' @ Guest_Name (Info portal) @ '' ('' @ ChannelType (Info portal) @ '')'' @
                           [CHR 0x0A] @ ''  Room: '' @ RoomID portal @
                           [CHR 0x0A] @ ''  Last activity: '' @
                           FormatRFC3339 env (LastMessageAt (Info portal)) @ [CHR 0x0A, CHR 0x0A]
                      else []) (portalsByID b))
      in sendContent env b roomID \<lparr>MsgType = MsgNotice, Body = conversationList\<rparr>
           ''Failed to send conversation list'')"

definition sendUnknownCommandMessage :: "Env \<Rightarrow> Bridge \<Rightarrow> User \<Rightarrow> RoomID \<Rightarrow> Bridge" where
  "sendUnknownCommandMessage env b u roomID =
     sendContent env b roomID
       \<lparr>MsgType = MsgNotice,
        Body = ''Unknown command. Type !help for a list of available commands.''\<rparr>
       ''Failed to send unknown command message''"

definition sendNotice :: "Env \<Rightarrow> Bridge \<Rightarrow> User \<Rightarrow> RoomID \<Rightarrow> string \<Rightarrow> Bridge" where
  "sendNotice env b u roomID message' =
     sendContent env b roomID \<lparr>MsgType = MsgNotice, Body = message'\<rparr> ''Failed to send notice''"

definition forceSyncConversations :: "Env \<Rightarrow> Bridge \<Rightarrow> User \<Rightarrow> RoomID \<Rightarrow> Bridge" where
  \<comment> \<open>the \<open>go func() { ... }()\<close> is recorded as a task to run later, see \<open>run_task\<close>\<close>
  "forceSyncConversations env b u roomID =
     (let b1 = sendNotice env b u roomID ''Forcing sync of conversations from Hostex...''
      in b1\<lparr>pending := pending b1 @ [SyncTask u roomID]\<rparr>)"

definition HandleCommand :: "Env \<Rightarrow> Bridge \<Rightarrow> User \<Rightarrow> RoomID \<Rightarrow> string \<Rightarrow> Bridge" where
  "HandleCommand env b u roomID body =
     (let parts = Fields body
      in if length parts = 0 then b
         else
           let command = ToLower env (parts ! 0)
           in if command = ''!help'' then sendHelpMessage env b u roomID
              else if command = ''!status'' then sendStatusMessage env b u roomID
              else if command = ''!list'' then listConversations env b u roomID
              else if command = ''!sync'' then forceSyncConversations env b u roomID
              else sendUnknownCommandMessage env b u roomID)"

section \<open>Bridge: polling and routing\<close>

definition handleHostexConversation :: "Env \<Rightarrow> Bridge \<Rightarrow> Conversation \<Rightarrow> Bridge" where
  "handleHostexConversation env b conv =
     (let (portal, b1) =
            (case map_of (portalsByID b) (conv_ID conv) of
               Some p \<Rightarrow> (p, b)
             | None \<Rightarrow>
                 (NewPortal (conv_ID conv),
                  b\<lparr>portalsByID :=
                      AList.update (conv_ID conv) (NewPortal (conv_ID conv)) (portalsByID b)\<rparr>));
          p1 = UpdateInfo portal conv;
          (err, b2, p2) = CreateMatrixRoom env b1 p1;
          b3 = b2\<lparr>portalsByID := AList.update (conv_ID conv) p2 (portalsByID b2)\<rparr>
      in case err of
           Some e \<Rightarrow> emit (Log ErrorLevel ''Failed to create Matrix room'') b3
         | None \<Rightarrow>
             (case BackfillMessages env b3 p2 of
                (Some e, b4) \<Rightarrow> emit (Log ErrorLevel ''Failed to backfill messages'') b4
              | (None, b4) \<Rightarrow> b4))"

definition pollHostex :: "Env \<Rightarrow> Bridge \<Rightarrow> Bridge" where
  "pollHostex env b =
     (let b0 = b\<lparr>lastPollTime := Now env (tick b)\<rparr>;
          resp = GetConversations_resp env (tick b0);
          b1 = emit (HostexGetConversations resp) b0
      in case resp of
           Inl e \<Rightarrow> emit (Log ErrorLevel ''Failed to get conversations'') b1
         | Inr conversations \<Rightarrow> fold (\<lambda>conv b'. handleHostexConversation env b' conv) conversations b1)"

definition handleManagementCommand :: "Env \<Rightarrow> Bridge \<Rightarrow> Event \<Rightarrow> Bridge" where
  "handleManagementCommand env b evt =
     (if evt_Sender evt \<noteq> Admin_UserID (Config b)
      then emit (Log WarnLevel ''Unauthorized management command'') b
      else
        case evt_Parsed evt of
          ParsedOther \<Rightarrow> b
        | ParsedMessage content \<Rightarrow>
            let (user', b1) =
                  (case usersByMXID b (evt_Sender evt) of
                     Some u \<Rightarrow> (u, b)
                   | None \<Rightarrow>
                       (NewUser (evt_Sender evt),
                        b\<lparr>usersByMXID := (usersByMXID b)(evt_Sender evt \<mapsto> NewUser (evt_Sender evt))\<rparr>))
            in HandleCommand env b1 user' (evt_RoomID evt) (Body content))"

definition handleMatrixMessage :: "Env \<Rightarrow> Bridge \<Rightarrow> Event \<Rightarrow> Bridge" where
  "handleMatrixMessage env b evt =
     (if evt_RoomID evt = managementRoom b then handleManagementCommand env b evt
      else
        case map_of (portalsByID b) (evt_RoomID evt) of
          None \<Rightarrow> emit (Log WarnLevel ''Received message for unknown portal'') b
        | Some portal \<Rightarrow> HandleMatrixMessage env b portal evt)"

fun run_task :: "Env \<Rightarrow> Bridge \<Rightarrow> Task \<Rightarrow> Bridge" where
  \<comment> \<open>the body of the goroutine that \<open>forceSyncConversations\<close> starts, run without interleaving\<close>
  "run_task env b (SyncTask u roomID) =
     sendNotice env (pollHostex env b) u roomID
       ''Sync complete. Use !list to see updated conversations.''"

definition run_pending :: "Env \<Rightarrow> Bridge \<Rightarrow> Bridge" where
  \<comment> \<open>let every goroutine started so far run to its end, in the order they were started\<close>
  "run_pending env b = fold (\<lambda>t b'. run_task env b' t) (pending b) (b\<lparr>pending := []\<rparr>)"

section \<open>Observations on the record of calls\<close>


fun is_create :: "call \<Rightarrow> bool" where
  "is_create (MatrixCreateRoom v n t resp) = True"
| "is_create c = False"

fun is_created :: "call \<Rightarrow> bool" where
  \<comment> \<open>a \<open>CreateRoom\<close> call that the server answered with a room\<close>
  "is_created (MatrixCreateRoom v n t (Inr rid)) = True"
| "is_created c = False"

fun is_remote_send :: "call \<Rightarrow> bool" where
  "is_remote_send (HostexSendMessage c body resp) = True"
| "is_remote_send c = False"

fun is_fetch :: "call \<Rightarrow> bool" where
  "is_fetch (HostexGetMessages c since limit resp) = True"
| "is_fetch c = False"

section \<open>Concrete collaborators and inputs\<close>

text \<open>
  A homeserver, a Hostex service and a database driver that answer every call with
  success, and a bridge as \<open>NewBridge\<close> and \<open>Start\<close> leave it on an empty database.
\<close>

definition env_ok :: Env where
  "env_ok =
     \<lparr>CreateRoom_resp = (\<lambda>n. Inr ''!r1:hs''),
      SendMessageEvent_resp = (\<lambda>n. Inr ''$e1''),
      SendStateEvent_resp = (\<lambda>n. Inr ''$s1''),
      GetConversations_resp = (\<lambda>n. Inr []),
      GetMessages_resp = (\<lambda>n. Inr []),
      HostexSend_resp = (\<lambda>n. None),
      db_io = (\<lambda>n. None),
      Now = (\<lambda>n. time_Unix 1700000000 0),
      LoadLocation = (\<lambda>s. if s = ''UTC'' then Inr UTC else Inl (Err ''unknown time zone'')),
      FormatRFC3339 = (\<lambda>t. ''0001-01-01T00:00:00Z''),
      unicode_ToLower = (\<lambda>s. s)\<rparr>"

definition cfg0 :: Config where
  "cfg0 =
     \<lparr>Homeserver_Domain = ''hs'', Admin_UserID = ''@admin:hs'', Timezone = ''UTC'',
      PersonalSpaceEnable = False\<rparr>"

definition b0 :: Bridge where
  "b0 = (NewBridge cfg0 NewDatabase)\<lparr>managementRoom := ''!mgmt:hs''\<rparr>"

definition admin :: User where
  "admin = NewUser ''@admin:hs''"

section \<open>The command dispatcher\<close>

lemma Fields_only_ascii_space: "\<forall>c \<in> set s. asciiSpace c \<Longrightarrow> Fields s = []"
  unfolding Fields_def by (induction s) (simp_all add: space_width_def)

lemma Fields_blank: "Fields [CHR 0x20, CHR 0x09, CHR 0x20] = []"
  by (simp add: Fields_only_ascii_space asciiSpace_def)





text \<open>
  C10.  A command body without any white-space delimited token (empty, or white space
  only) makes \<open>HandleCommand\<close> return at once: the bridge is left as it was, so nothing is
  sent, not even the unknown-command notice.
\<close>

theorem HandleCommand_no_tokens:
  "Fields body = [] \<Longrightarrow> HandleCommand env b u roomID body = b"
  by (simp add: HandleCommand_def)

theorem HandleCommand_no_tokens_witness:
  "Fields [CHR 0x20, CHR 0x09, CHR 0x20] = [] \<and>
   HandleCommand env_ok b0 admin ''!mgmt:hs'' [CHR 0x20, CHR 0x09, CHR 0x20] = b0"
  using HandleCommand_no_tokens [OF Fields_blank, of env_ok b0 admin "''!mgmt:hs''"] Fields_blank
  by simp



end
